theory Spec2Isabelle
  imports Complex_Main "HOL-Library.AList"
begin

section \<open>Stock dashboard: data model\<close>

text \<open>
  The dashboard script \<^verbatim>\<open>stock_dashboard.py\<close> works on pandas data frames returned by the
  data provider. A frame is modelled as the list of its rows in index order; every row has
  the date index and the five columns the script reads.

  Prices are 64-bit floats in the source. They are modelled as real numbers, so the
  rounding of a float operation is not part of the model; the non-finite results that float
  arithmetic produces (division by zero, a reduction over no rows) are part of it, as the
  values of \<open>npfloat\<close>. Frames are taken to hold finite numbers in every cell.
\<close>

record bar =
  bar_date :: int
  bar_open :: real
  bar_high :: real
  bar_low :: real
  bar_close :: real
  bar_volume :: int

type_synonym dataframe = "bar list"

datatype npfloat = Finite real | PosInf | NegInf | NaN

datatype py_error = IndexError | TypeError

text \<open>\<^verbatim>\<open>data.empty\<close>: the frame has no rows (its columns are fixed).\<close>

definition empty_frame :: "dataframe \<Rightarrow> bool" where
  "empty_frame df = (df = [])"

text \<open>\<^verbatim>\<open>data['Close']\<close> and the other column selections.\<close>

definition column :: "(bar \<Rightarrow> 'a) \<Rightarrow> dataframe \<Rightarrow> 'a list" where
  "column f df = map f df"

text \<open>
  \<^verbatim>\<open>series.iloc[i]\<close>: positional access, a negative position counts from the end, and a
  position outside the series raises \<^verbatim>\<open>IndexError\<close>.
\<close>

definition iloc :: "'a list \<Rightarrow> int \<Rightarrow> py_error + 'a" where
  "iloc xs i =
     (let len = int (length xs);
          pos = (if i < 0 then i + len else i)
      in if pos < 0 \<or> len \<le> pos then Inl IndexError else Inr (xs ! nat pos))"

text \<open>
  Division and multiplication of numpy floats. Dividing by zero raises nothing: it gives
  an infinity, or NaN for \<open>0 / 0\<close>.
\<close>

definition np_truediv :: "real \<Rightarrow> real \<Rightarrow> npfloat" where
  "np_truediv a b =
     (if b = 0 then (if a = 0 then NaN else if 0 < a then PosInf else NegInf)
      else Finite (a / b))"

fun np_mul :: "npfloat \<Rightarrow> real \<Rightarrow> npfloat" where
  "np_mul (Finite x) c = Finite (x * c)"
| "np_mul PosInf c = (if c = 0 then NaN else if 0 < c then PosInf else NegInf)"
| "np_mul NegInf c = (if c = 0 then NaN else if 0 < c then NegInf else PosInf)"
| "np_mul NaN c = NaN"

text \<open>
  The reductions \<^verbatim>\<open>Series.max()\<close>, \<^verbatim>\<open>Series.min()\<close> and \<^verbatim>\<open>Series.mean()\<close>: a running
  maximum, a running minimum, and the sum over the count. Over no values each gives NaN.
\<close>

fun series_max :: "real list \<Rightarrow> npfloat" where
  "series_max [] = NaN"
| "series_max (x # xs) = Finite (fold max xs x)"

fun series_min :: "real list \<Rightarrow> npfloat" where
  "series_min [] = NaN"
| "series_min (x # xs) = Finite (fold min xs x)"

fun series_mean :: "int list \<Rightarrow> npfloat" where
  "series_mean [] = NaN"
| "series_mean (x # xs) = Finite (real_of_int (fold (+) xs x) / real (Suc (length xs)))"

section \<open>The statistics calculator\<close>

record statistics =
  Current_Price :: real
  Opening_Price :: real
  High :: npfloat
  Low :: npfloat
  Price_Change :: real
  Percentage_Change :: npfloat
  Average_Volume :: npfloat

text \<open>
  \<^verbatim>\<open>calculate_statistics(data)\<close>. The argument is \<^verbatim>\<open>None\<close> or a frame; the result is
  \<^verbatim>\<open>None\<close> or the dictionary of the seven statistics, and \<open>Inl\<close> is an exception leaving
  the function.
\<close>

definition calculate_statistics :: "dataframe option \<Rightarrow> py_error + statistics option" where
  "calculate_statistics data =
     (case data of
        None \<Rightarrow> Inr None
      | Some df \<Rightarrow>
          if empty_frame df then Inr None
          else
            (case iloc (column bar_close df) (- 1) of
               Inl e \<Rightarrow> Inl e
             | Inr current_price \<Rightarrow>
                 (case iloc (column bar_close df) 0 of
                    Inl e \<Rightarrow> Inl e
                  | Inr previous_price \<Rightarrow>
                      let price_change = current_price - previous_price;
                          percentage_change = np_mul (np_truediv price_change previous_price) 100
                      in Inr (Some \<lparr>Current_Price = current_price,
                                    Opening_Price = previous_price,
                                    High = series_max (column bar_high df),
                                    Low = series_min (column bar_low df),
                                    Price_Change = price_change,
                                    Percentage_Change = percentage_change,
                                    Average_Volume = series_mean (column bar_volume df)\<rparr>))))"

text \<open>
  The precondition the specification puts on a series: its rows are in ascending date
  order. The calculator itself never reads the date index.
\<close>

definition date_ascending :: "dataframe \<Rightarrow> bool" where
  "date_ascending df = sorted (map bar_date df)"

section \<open>The date range selection\<close>

text \<open>
  A \<^verbatim>\<open>datetime\<close> is the number of microseconds since the epoch, and
  \<^verbatim>\<open>timedelta(days=d)\<close> is \<open>d\<close> days in microseconds. \<open>select_period\<close> is the
  \<^verbatim>\<open>if date_range == "Custom"\<close> statement of the script: \<open>now\<close> is the value of
  \<^verbatim>\<open>datetime.now()\<close> and the two custom dates are what the date inputs return. The result
  is the pair \<^verbatim>\<open>(start_date, end_date)\<close>.
\<close>

type_synonym datetime = int

definition timedelta :: "int \<Rightarrow> int" where
  "timedelta days = days * 86400000000"

definition select_period :: "string \<Rightarrow> datetime \<Rightarrow> datetime \<Rightarrow> datetime \<Rightarrow> datetime \<times> datetime" where
  "select_period date_range now custom_start custom_end =
     (if date_range = ''Custom'' then (custom_start, custom_end)
      else
        let end_date = now;
            start_date =
              (if date_range = ''1 Week'' then end_date - timedelta 14
               else if date_range = ''1 Month'' then end_date - timedelta 35
               else if date_range = ''3 Months'' then end_date - timedelta 95
               else if date_range = ''6 Months'' then end_date - timedelta 185
               else end_date - timedelta 370)
        in (start_date, end_date))"

section \<open>Fetching the data\<close>

text \<open>
  The data provider is outside the script. A call into it either returns or raises an
  exception, which carries its message \<^verbatim>\<open>str(e)\<close>. \<^verbatim>\<open>yf.Ticker(symbol)\<close> gives a
  ticker with its \<^verbatim>\<open>history\<close> method and its \<^verbatim>\<open>info\<close> property; the formatting of the
  two dates as \<^verbatim>\<open>%Y-%m-%d\<close> strings is taken as part of \<open>history\<close>.
\<close>

datatype 'a outcome = Raised string | Returned 'a

type_synonym info = "(string \<times> string) list"

record ticker =
  history :: "datetime \<Rightarrow> datetime \<Rightarrow> dataframe outcome"
  ticker_info :: "info outcome"

type_synonym provider = "string \<Rightarrow> ticker outcome"

text \<open>
  What the script shows: every element carries the place it is drawn in (the tab of a
  symbol, or the page itself). A \<open>Panel\<close> stands for the whole of the metrics, the price
  change analysis, the two charts and the two tables of one symbol, and carries what they
  are drawn from: the symbol, the statistics, the chart type and the frame.
\<close>

datatype place = Page | Tab nat

datatype ui_event =
    Subheader string
  | Warning string
  | Error string
  | Panel string statistics string dataframe

text \<open>
  \<^verbatim>\<open>get_stock_data(symbol, start, end)\<close>: the pair \<^verbatim>\<open>(data, info)\<close> it returns and the
  messages it shows. Every exception raised inside the \<^verbatim>\<open>try\<close> block is caught. The cache
  around the function is not modelled: every call fetches.
\<close>

definition fetch_failed :: "string \<Rightarrow> string \<Rightarrow> (dataframe option \<times> info option) \<times> ui_event list" where
  "fetch_failed symbol e =
     ((None, None), [Error (''Error fetching data for '' @ symbol @ '': '' @ e)])"

definition get_stock_data ::
  "provider \<Rightarrow> string \<Rightarrow> datetime \<Rightarrow> datetime \<Rightarrow> (dataframe option \<times> info option) \<times> ui_event list" where
  "get_stock_data yf symbol start end =
     (case yf symbol of
        Raised e \<Rightarrow> fetch_failed symbol e
      | Returned stock \<Rightarrow>
          (case history stock start end of
             Raised e \<Rightarrow> fetch_failed symbol e
           | Returned data \<Rightarrow>
               if empty_frame data then
                 ((None, None),
                  [Warning (''No data returned for '' @ symbol @ ''. Try a different date range.'')])
               else
                 (case ticker_info stock of
                    Raised e \<Rightarrow> fetch_failed symbol e
                  | Returned i \<Rightarrow> ((Some data, Some i), []))))"

section \<open>The main loop over the selected symbols\<close>

text \<open>
  The state of one run of the script: the dictionary \<^verbatim>\<open>all_data\<close>, in insertion order, and
  what has been shown so far. An assignment \<^verbatim>\<open>all_data[symbol] = data\<close> is
  \<open>AList.update\<close>: it replaces the value of a key already present and appends a new key.
\<close>

record app_state =
  all_data :: "(string \<times> dataframe) list"
  shown :: "(place \<times> ui_event) list"

definition emit :: "place \<Rightarrow> ui_event list \<Rightarrow> app_state \<Rightarrow> app_state" where
  "emit p evs st = st\<lparr>shown := shown st @ map (Pair p) evs\<rparr>"

text \<open>
  The body of the loop for the symbol at position \<open>i\<close>. Indexing the statistics when
  \<open>calculate_statistics\<close> returned \<^verbatim>\<open>None\<close> raises \<^verbatim>\<open>TypeError\<close>.
\<close>

definition tab_body ::
  "provider \<Rightarrow> datetime \<Rightarrow> datetime \<Rightarrow> string \<Rightarrow> nat \<Rightarrow> string \<Rightarrow> app_state \<Rightarrow> py_error + app_state" where
  "tab_body yf start_date end_date chart_type i symbol st =
     (let st1 = emit (Tab i) [Subheader (symbol @ '' Stock Analysis'')] st;
          ((data, inf), msgs) = get_stock_data yf symbol start_date end_date;
          st2 = emit (Tab i) msgs st1
      in case data of
           None \<Rightarrow> Inr (emit (Tab i) [Error (''No data available for '' @ symbol)] st2)
         | Some df \<Rightarrow>
             if empty_frame df then
               Inr (emit (Tab i) [Error (''No data available for '' @ symbol)] st2)
             else
               let st3 = st2\<lparr>all_data := AList.update symbol df (all_data st2)\<rparr>
               in case calculate_statistics data of
                    Inl e \<Rightarrow> Inl e
                  | Inr None \<Rightarrow> Inl TypeError
                  | Inr (Some stats) \<Rightarrow>
                      Inr (emit (Tab i) [Panel symbol stats chart_type df] st3))"

fun tab_loop ::
  "provider \<Rightarrow> datetime \<Rightarrow> datetime \<Rightarrow> string \<Rightarrow> (nat \<times> string) list \<Rightarrow> app_state \<Rightarrow> py_error + app_state" where
  "tab_loop yf start_date end_date chart_type [] st = Inr st"
| "tab_loop yf start_date end_date chart_type ((i, symbol) # rest) st =
     (case tab_body yf start_date end_date chart_type i symbol st of
        Inl e \<Rightarrow> Inl e
      | Inr st' \<Rightarrow> tab_loop yf start_date end_date chart_type rest st')"

section \<open>Export\<close>

text \<open>
  The CSV export concatenates, in the order of \<^verbatim>\<open>all_data\<close>, a copy of every frame with
  the added column \<^verbatim>\<open>Symbol\<close>; the Excel export writes one sheet per entry, named by the
  symbol. The artifact is the table (or the sheets) handed to the serialiser of the data
  frame library; the text of the file is not modelled.
\<close>

type_synonym csv_row = "bar \<times> string"

fun combine :: "(string \<times> dataframe) list \<Rightarrow> csv_row list \<Rightarrow> csv_row list" where
  "combine [] combined_data = combined_data"
| "combine ((symbol, data) # rest) combined_data =
     combine rest (combined_data @ map (\<lambda>row. (row, symbol)) data)"

fun write_sheets :: "(string \<times> dataframe) list \<Rightarrow> (string \<times> dataframe) list \<Rightarrow> (string \<times> dataframe) list" where
  "write_sheets [] writer = writer"
| "write_sheets ((symbol, data) # rest) writer = write_sheets rest (writer @ [(symbol, data)])"

datatype export_artifact = Csv "csv_row list" | Excel "(string \<times> dataframe) list"

datatype export_ui = No_Export | Export_Controls "export_artifact option"

text \<open>
  The export section of the sidebar: the controls exist when \<^verbatim>\<open>all_data\<close> is not empty,
  and a download is built when the button is pressed.
\<close>

definition export_data :: "(string \<times> dataframe) list \<Rightarrow> string \<Rightarrow> bool \<Rightarrow> export_ui" where
  "export_data data_by_symbol export_format pressed =
     (if data_by_symbol = [] then No_Export
      else if pressed then
        (if export_format = ''CSV'' then Export_Controls (Some (Csv (combine data_by_symbol [])))
         else Export_Controls (Some (Excel (write_sheets data_by_symbol []))))
      else Export_Controls None)"

text \<open>The symbols an export artifact holds data for.\<close>

fun exported_symbols :: "export_artifact \<Rightarrow> string set" where
  "exported_symbols (Csv rows) = snd ` set rows"
| "exported_symbols (Excel sheets) = fst ` set sheets"

text \<open>
  The main content of the page: the loop over the selected symbols followed by the export
  section, or the warning when nothing is selected (its text is given without the warning
  sign it starts with in the script).
\<close>

definition dashboard ::
  "provider \<Rightarrow> string list \<Rightarrow> datetime \<Rightarrow> datetime \<Rightarrow> string \<Rightarrow> string \<Rightarrow> bool \<Rightarrow> py_error + app_state \<times> export_ui" where
  "dashboard yf stock_symbols start_date end_date chart_type export_format pressed =
     (if stock_symbols = [] then
        Inr (\<lparr>all_data = [],
              shown = [(Page, Warning ''Please select at least one stock symbol from the sidebar to begin analysis.'')]\<rparr>,
             No_Export)
      else
        (case tab_loop yf start_date end_date chart_type (enumerate 0 stock_symbols)
                \<lparr>all_data = [], shown = []\<rparr> of
           Inl e \<Rightarrow> Inl e
         | Inr st \<Rightarrow> Inr (st, export_data (all_data st) export_format pressed)))"

text \<open>
  A fetch succeeds for a symbol when \<open>get_stock_data\<close> returns a frame with at least
  one row.
\<close>

definition fetch_ok :: "provider \<Rightarrow> datetime \<Rightarrow> datetime \<Rightarrow> string \<Rightarrow> bool" where
  "fetch_ok yf start_date end_date symbol =
     (case fst (fst (get_stock_data yf symbol start_date end_date)) of
        None \<Rightarrow> False
      | Some df \<Rightarrow> df \<noteq> [])"

section \<open>Example inputs\<close>

text \<open>
  The two-bar scenario of the specification, three series whose first close is zero (with
  a rising, a flat and a falling close after it), and a series whose rows are not in date
  order.
\<close>

definition scenario :: dataframe where
  "scenario =
     [\<lparr>bar_date = 1, bar_open = 98, bar_high = 105, bar_low = 95, bar_close = 100, bar_volume = 1000\<rparr>,
      \<lparr>bar_date = 2, bar_open = 101, bar_high = 112, bar_low = 99, bar_close = 110, bar_volume = 2000\<rparr>]"




definition unordered :: dataframe where
  "unordered =
     [\<lparr>bar_date = 9, bar_open = 101, bar_high = 112, bar_low = 99, bar_close = 110, bar_volume = 2000\<rparr>,
      \<lparr>bar_date = 3, bar_open = 98, bar_high = 105, bar_low = 95, bar_close = 100, bar_volume = 1000\<rparr>]"

text \<open>Two frames with the same rows up to the date index have the same image.\<close>

definition erase_dates :: "dataframe \<Rightarrow> dataframe" where
  "erase_dates df = map (\<lambda>row. row\<lparr>bar_date := 0\<rparr>) df"

text \<open>
  The frame \<open>get_stock_data\<close> returns for a symbol, and what the tab of the symbol at
  position \<open>i\<close> holds after the run: every message of the fetch, and then the panel of the
  symbol when the fetch succeeded, the error message otherwise.
\<close>

definition fetched :: "provider \<Rightarrow> datetime \<Rightarrow> datetime \<Rightarrow> string \<Rightarrow> dataframe option" where
  "fetched yf start_date end_date symbol = fst (fst (get_stock_data yf symbol start_date end_date))"

definition tab_outcome_shown ::
  "provider \<Rightarrow> datetime \<Rightarrow> datetime \<Rightarrow> string \<Rightarrow> nat \<Rightarrow> string \<Rightarrow> (place \<times> ui_event) list \<Rightarrow> bool" where
  "tab_outcome_shown yf start_date end_date chart_type i symbol evs =
     (list_all (\<lambda>m. (Tab i, m) \<in> set evs) (snd (get_stock_data yf symbol start_date end_date))
      \<and> (if fetch_ok yf start_date end_date symbol then
           (case fetched yf start_date end_date symbol of
              None \<Rightarrow> False
            | Some df \<Rightarrow>
                (case calculate_statistics (Some df) of
                   Inr (Some stats) \<Rightarrow> (Tab i, Panel symbol stats chart_type df) \<in> set evs
                 | _ \<Rightarrow> False))
         else (Tab i, Error (''No data available for '' @ symbol)) \<in> set evs))"

text \<open>
  A provider for the examples: the ticker of AAPL cannot be created, MSFT has the
  two-bar scenario as its history, and every other symbol has an empty history.
\<close>

definition demo_provider :: provider where
  "demo_provider symbol =
     (if symbol = ''AAPL'' then Raised ''connection refused''
      else if symbol = ''MSFT'' then
        Returned \<lparr>history = (\<lambda>start end. Returned scenario), ticker_info = Returned []\<rparr>
      else Returned \<lparr>history = (\<lambda>start end. Returned []), ticker_info = Returned []\<rparr>)"

section \<open>Properties of the statistics calculator\<close>

lemma iloc_first: "xs \<noteq> [] \<Longrightarrow> iloc xs 0 = Inr (hd xs)"
  by (cases xs) (simp_all add: iloc_def)

lemma iloc_last: "xs \<noteq> [] \<Longrightarrow> iloc xs (- 1) = Inr (last xs)"
proof -
  assume ne: "xs \<noteq> []"
  then have len: "0 < length xs" by simp
  then have pos: "nat (int (length xs) - 1) = length xs - Suc 0" by linarith
  from len have "iloc xs (- 1) = Inr (xs ! (length xs - Suc 0))"
    by (simp add: iloc_def Let_def pos)
  with ne show ?thesis by (simp add: last_conv_nth)
qed

lemma calculate_statistics_nonempty:
  assumes "df \<noteq> []"
  shows "calculate_statistics (Some df) =
     Inr (Some \<lparr>Current_Price = bar_close (last df),
                Opening_Price = bar_close (hd df),
                High = series_max (map bar_high df),
                Low = series_min (map bar_low df),
                Price_Change = bar_close (last df) - bar_close (hd df),
                Percentage_Change =
                  np_mul (np_truediv (bar_close (last df) - bar_close (hd df)) (bar_close (hd df))) 100,
                Average_Volume = series_mean (map bar_volume df)\<rparr>)"
  using assms
  by (simp add: calculate_statistics_def empty_frame_def column_def iloc_first iloc_last
      last_map hd_map Let_def)

text \<open>
  Claim C5. For a missing series (\<^verbatim>\<open>None\<close>) and for a series with no rows,
  \<open>calculate_statistics\<close> returns \<^verbatim>\<open>None\<close>: it raises no exception and builds no
  dictionary of statistics.
\<close>

theorem calculate_statistics_no_data:
  "calculate_statistics None = Inr None \<and> calculate_statistics (Some []) = Inr None"
  by (simp add: calculate_statistics_def empty_frame_def)

lemma series_max_Max: "xs \<noteq> [] \<Longrightarrow> series_max xs = Finite (Max (set xs))"
  by (cases xs) (simp_all add: Max.set_eq_fold [symmetric])

lemma series_min_Min: "xs \<noteq> [] \<Longrightarrow> series_min xs = Finite (Min (set xs))"
  by (cases xs) (simp_all add: Min.set_eq_fold [symmetric])

lemma fold_plus_start: "fold (+) xs (x::int) = x + sum_list xs"
  by (induction xs arbitrary: x) simp_all

lemma series_mean_sum:
  "xs \<noteq> [] \<Longrightarrow> series_mean xs = Finite (real_of_int (sum_list xs) / real (length xs))"
  by (cases xs) (simp_all add: fold_plus_start)

text \<open>
  Claim C2. For every non-empty series in ascending date order, \<open>calculate_statistics\<close>
  returns a result whose current price is the close of the last bar and whose opening
  price is the close of the first bar, not its open (in the two-bar scenario the first
  bar opens at 98 and closes at 100, and the opening price is 100).
\<close>

theorem endpoints_are_closes:
  assumes "df \<noteq> []" and "date_ascending df"
  shows "\<exists>st. calculate_statistics (Some df) = Inr (Some st)
           \<and> Current_Price st = bar_close (last df)
           \<and> Opening_Price st = bar_close (hd df)"
  using assms(1) by (simp add: calculate_statistics_nonempty)

theorem endpoints_are_closes_witness:
  "scenario \<noteq> [] \<and> date_ascending scenario
   \<and> (\<exists>st. calculate_statistics (Some scenario) = Inr (Some st)
           \<and> Current_Price st = 110 \<and> Opening_Price st = 100 \<and> bar_open (hd scenario) = 98)"
  using endpoints_are_closes [of scenario]
  by (simp add: scenario_def date_ascending_def)

text \<open>
  Claim C3. For every non-empty series the price change of the result is the current
  price minus the opening price, that is the difference of the last and the first close
  as they stand in the frame.
\<close>

theorem price_change_is_difference:
  assumes "df \<noteq> []"
  shows "\<exists>st. calculate_statistics (Some df) = Inr (Some st)
           \<and> Price_Change st = Current_Price st - Opening_Price st
           \<and> Price_Change st = bar_close (last df) - bar_close (hd df)"
  using assms by (simp add: calculate_statistics_nonempty)

theorem price_change_is_difference_witness:
  "scenario \<noteq> [] \<and> (\<exists>st. calculate_statistics (Some scenario) = Inr (Some st) \<and> Price_Change st = 10)"
  using price_change_is_difference [of scenario]
  by (auto simp add: scenario_def)

text \<open>
  Claim C4. For every non-empty series the result has as high the maximum of the highs of
  all bars, as low the minimum of their lows, and as average volume the sum of their
  volumes divided by their number.
\<close>

theorem high_low_average:
  assumes "df \<noteq> []"
  shows "\<exists>st. calculate_statistics (Some df) = Inr (Some st)
           \<and> High st = Finite (Max (bar_high ` set df))
           \<and> Low st = Finite (Min (bar_low ` set df))
           \<and> Average_Volume st = Finite (real_of_int (\<Sum>b\<leftarrow>df. bar_volume b) / real (length df))"
  using assms
  by (simp add: calculate_statistics_nonempty series_max_Max series_min_Min series_mean_sum)

theorem high_low_average_witness:
  "scenario \<noteq> [] \<and> (\<exists>st. calculate_statistics (Some scenario) = Inr (Some st)
      \<and> High st = Finite 112 \<and> Low st = Finite 95 \<and> Average_Volume st = Finite 1500)"
  using high_low_average [of scenario]
  by (simp add: scenario_def)




text \<open>
  Claim C8. The presets fetch windows wider than their names: the start date is 14 days
  before \<open>now\<close> for "1 Week", 35 days for "1 Month", 95 days for "3 Months", 185 days for
  "6 Months" and 370 days for "1 Year", and the end date is \<open>now\<close> in each case.
\<close>

theorem preset_windows:
  "select_period ''1 Week'' now custom_start custom_end = (now - timedelta 14, now)
   \<and> select_period ''1 Month'' now custom_start custom_end = (now - timedelta 35, now)
   \<and> select_period ''3 Months'' now custom_start custom_end = (now - timedelta 95, now)
   \<and> select_period ''6 Months'' now custom_start custom_end = (now - timedelta 185, now)
   \<and> select_period ''1 Year'' now custom_start custom_end = (now - timedelta 370, now)
   \<and> timedelta 14 = 14 * timedelta 1 \<and> timedelta 35 = 35 * timedelta 1
   \<and> timedelta 95 = 95 * timedelta 1 \<and> timedelta 185 = 185 * timedelta 1
   \<and> timedelta 370 = 370 * timedelta 1 \<and> timedelta 1 = 24 * 60 * 60 * 1000000"
  by (simp add: select_period_def timedelta_def)

lemma calculate_statistics_erase_dates:
  "calculate_statistics (Some (erase_dates df)) = calculate_statistics (Some df)"
proof (cases "df = []")
  case True
  then show ?thesis by (simp add: erase_dates_def)
next
  case False
  then have ne: "erase_dates df \<noteq> []" by (simp add: erase_dates_def)
  show ?thesis
    unfolding calculate_statistics_nonempty [OF ne] calculate_statistics_nonempty [OF False]
    using False by (simp add: erase_dates_def hd_map last_map comp_def)
qed

text \<open>
  Claim C9. \<open>calculate_statistics\<close> never reads the dates. For every non-empty series,
  ordered or not, it returns a result whose current price is the close of the row at the
  last position and whose opening price is the close of the row at the first position;
  and two series that differ only in their dates have the same result.
\<close>

theorem dates_never_read:
  assumes "df \<noteq> []"
  shows "(\<exists>st. calculate_statistics (Some df) = Inr (Some st)
            \<and> Current_Price st = bar_close (df ! (length df - 1))
            \<and> Opening_Price st = bar_close (df ! 0))
         \<and> (\<forall>df'. erase_dates df' = erase_dates df
               \<longrightarrow> calculate_statistics (Some df') = calculate_statistics (Some df))"
proof -
  have "\<forall>df'. erase_dates df' = erase_dates df
          \<longrightarrow> calculate_statistics (Some df') = calculate_statistics (Some df)"
    by (metis calculate_statistics_erase_dates)
  with assms show ?thesis
    by (simp add: calculate_statistics_nonempty last_conv_nth hd_conv_nth)
qed

theorem dates_never_read_witness:
  "unordered \<noteq> [] \<and> \<not> date_ascending unordered
   \<and> (\<exists>st. calculate_statistics (Some unordered) = Inr (Some st)
           \<and> Current_Price st = 100 \<and> Opening_Price st = 110)
   \<and> erase_dates scenario = erase_dates (rev unordered)
   \<and> calculate_statistics (Some scenario) = calculate_statistics (Some (rev unordered))"
proof -
  have ne: "unordered \<noteq> []"
    by (simp add: unordered_def)
  then have ne': "rev unordered \<noteq> []"
    by simp
  have er: "erase_dates scenario = erase_dates (rev unordered)"
    by (simp add: unordered_def scenario_def erase_dates_def)
  from dates_never_read [OF ne'] er
  have eq: "calculate_statistics (Some scenario) = calculate_statistics (Some (rev unordered))"
    by blast
  have pos: "\<exists>st. calculate_statistics (Some unordered) = Inr (Some st)
           \<and> Current_Price st = 100 \<and> Opening_Price st = 110"
    by (simp add: unordered_def calculate_statistics_nonempty)
  have unsorted: "\<not> date_ascending unordered"
    by (simp add: unordered_def date_ascending_def)
  from ne unsorted pos er eq show ?thesis
    by (intro conjI)
qed

lemma tab_outcome_shown_mono:
  "tab_outcome_shown yf sd ed ct i s evs \<Longrightarrow> set evs \<subseteq> set evs' \<Longrightarrow>
   tab_outcome_shown yf sd ed ct i s evs'"
  unfolding tab_outcome_shown_def list_all_iff
  by (auto split: option.splits sum.splits)

lemma tab_body_total:
  "\<exists>st'. tab_body yf sd ed ct i s st = Inr st'
     \<and> set (shown st) \<subseteq> set (shown st')
     \<and> tab_outcome_shown yf sd ed ct i s (shown st')
     \<and> all_data st' =
         (if fetch_ok yf sd ed s then AList.update s (the (fetched yf sd ed s)) (all_data st)
          else all_data st)"
proof (cases "get_stock_data yf s sd ed")
  case (Pair res msgs)
  obtain data inf where res: "res = (data, inf)" by (cases res)
  show ?thesis
  proof (cases data)
    case None
    with Pair res show ?thesis
      by (auto simp add: tab_body_def emit_def tab_outcome_shown_def fetch_ok_def fetched_def list_all_iff)
  next
    case (Some df)
    show ?thesis
    proof (cases "df = []")
      case True
      with Pair res Some show ?thesis
        by (auto simp add: tab_body_def emit_def tab_outcome_shown_def fetch_ok_def fetched_def
            list_all_iff empty_frame_def)
    next
      case False
      with Pair res Some show ?thesis
        by (auto simp add: tab_body_def emit_def tab_outcome_shown_def fetch_ok_def fetched_def
            list_all_iff empty_frame_def calculate_statistics_nonempty)
    qed
  qed
qed

lemma tab_loop_total:
  "\<exists>st'. tab_loop yf sd ed ct xs st = Inr st'
     \<and> set (shown st) \<subseteq> set (shown st')
     \<and> (\<forall>(i, s) \<in> set xs. tab_outcome_shown yf sd ed ct i s (shown st'))
     \<and> (distinct (map fst (all_data st)) \<longrightarrow> distinct (map fst (all_data st')))
     \<and> (\<forall>s. map_of (all_data st') s =
            (if s \<in> snd ` set xs \<and> fetch_ok yf sd ed s then fetched yf sd ed s
             else map_of (all_data st) s))"
proof (induction xs arbitrary: st)
  case Nil
  show ?case by simp
next
  case (Cons x xs)
  obtain i s where x: "x = (i, s)" by (cases x)
  from tab_body_total [of yf sd ed ct i s st]
  obtain st1 where b: "tab_body yf sd ed ct i s st = Inr st1"
    and b1: "set (shown st) \<subseteq> set (shown st1)"
    and b2: "tab_outcome_shown yf sd ed ct i s (shown st1)"
    and b3: "all_data st1 =
         (if fetch_ok yf sd ed s then AList.update s (the (fetched yf sd ed s)) (all_data st)
          else all_data st)"
    by blast
  from Cons.IH [of st1]
  obtain st' where l: "tab_loop yf sd ed ct xs st1 = Inr st'"
    and l1: "set (shown st1) \<subseteq> set (shown st')"
    and l2: "\<forall>(i, s) \<in> set xs. tab_outcome_shown yf sd ed ct i s (shown st')"
    and l3: "distinct (map fst (all_data st1)) \<longrightarrow> distinct (map fst (all_data st'))"
    and l4: "\<forall>s. map_of (all_data st') s =
            (if s \<in> snd ` set xs \<and> fetch_ok yf sd ed s then fetched yf sd ed s
             else map_of (all_data st1) s)"
    by blast
  have run: "tab_loop yf sd ed ct (x # xs) st = Inr st'"
    using b l x by simp
  have sh: "set (shown st) \<subseteq> set (shown st')"
    using b1 l1 by blast
  have out: "\<forall>(i, s) \<in> set (x # xs). tab_outcome_shown yf sd ed ct i s (shown st')"
    using l2 tab_outcome_shown_mono [OF b2 l1] x by simp
  have dist: "distinct (map fst (all_data st)) \<longrightarrow> distinct (map fst (all_data st'))"
    using l3 b3 by (simp add: AList.distinct_update)
  have ok_some: "\<And>k. fetch_ok yf sd ed k \<Longrightarrow> fetched yf sd ed k = Some (the (fetched yf sd ed k))"
    by (auto simp: fetch_ok_def fetched_def split: option.splits)
  have m: "\<forall>k. map_of (all_data st') k =
            (if k \<in> snd ` set (x # xs) \<and> fetch_ok yf sd ed k then fetched yf sd ed k
             else map_of (all_data st) k)"
  proof
    fix k
    show "map_of (all_data st') k =
            (if k \<in> snd ` set (x # xs) \<and> fetch_ok yf sd ed k then fetched yf sd ed k
             else map_of (all_data st) k)"
    proof (cases "k \<in> snd ` set xs \<and> fetch_ok yf sd ed k")
      case True
      then show ?thesis using l4 by simp
    next
      case False
      with l4 have "map_of (all_data st') k = map_of (all_data st1) k"
        by auto
      also have "\<dots> = (if k = s \<and> fetch_ok yf sd ed k then fetched yf sd ed k
             else map_of (all_data st) k)"
        using b3 ok_some [of s] by (auto simp add: AList.update_conv')
      finally show ?thesis using False x by auto
    qed
  qed
  from run sh out dist m show ?case by blast
qed

section \<open>Properties of the main loop and of the export\<close>

lemma dashboard_total:
  assumes "stock_symbols \<noteq> []"
  shows "\<exists>st. dashboard yf stock_symbols sd ed ct fmt pressed =
             Inr (st, export_data (all_data st) fmt pressed)
     \<and> (\<forall>(i, s) \<in> set (enumerate 0 stock_symbols). tab_outcome_shown yf sd ed ct i s (shown st))
     \<and> distinct (map fst (all_data st))
     \<and> (\<forall>s. map_of (all_data st) s =
            (if s \<in> set stock_symbols \<and> fetch_ok yf sd ed s then fetched yf sd ed s else None))"
proof -
  let ?init = "\<lparr>all_data = [], shown = []\<rparr>"
  from tab_loop_total [of yf sd ed ct "enumerate 0 stock_symbols" ?init]
  obtain st where l: "tab_loop yf sd ed ct (enumerate 0 stock_symbols) ?init = Inr st"
    and l2: "\<forall>(i, s) \<in> set (enumerate 0 stock_symbols). tab_outcome_shown yf sd ed ct i s (shown st)"
    and l3: "distinct (map fst (all_data ?init)) \<longrightarrow> distinct (map fst (all_data st))"
    and l4: "\<forall>s. map_of (all_data st) s =
            (if s \<in> snd ` set (enumerate 0 stock_symbols) \<and> fetch_ok yf sd ed s
             then fetched yf sd ed s else map_of (all_data ?init) s)"
    by blast
  have img: "snd ` set (enumerate 0 stock_symbols) = set stock_symbols"
    by (metis list.set_map map_snd_enumerate)
  from l assms have "dashboard yf stock_symbols sd ed ct fmt pressed =
             Inr (st, export_data (all_data st) fmt pressed)"
    by (simp add: dashboard_def)
  moreover from l3 have "distinct (map fst (all_data st))" by simp
  moreover from l4 img have "\<forall>s. map_of (all_data st) s =
            (if s \<in> set stock_symbols \<and> fetch_ok yf sd ed s then fetched yf sd ed s else None)"
    by simp
  ultimately show ?thesis using l2 by blast
qed

lemma fetch_demo:
  "get_stock_data demo_provider ''AAPL'' sd ed =
     ((None, None), [Error ''Error fetching data for AAPL: connection refused''])"
  "get_stock_data demo_provider ''MSFT'' sd ed = ((Some scenario, Some []), [])"
  "get_stock_data demo_provider ''TSLA'' sd ed =
     ((None, None), [Warning ''No data returned for TSLA. Try a different date range.''])"
  by (simp_all add: get_stock_data_def demo_provider_def fetch_failed_def empty_frame_def
      scenario_def)

lemma scenario_statistics:
  "calculate_statistics (Some scenario) =
     Inr (Some \<lparr>Current_Price = 110, Opening_Price = 100, High = Finite 112, Low = Finite 95,
                Price_Change = 10, Percentage_Change = Finite 10, Average_Volume = Finite 1500\<rparr>)"
  by (simp add: scenario_def calculate_statistics_nonempty np_truediv_def)

lemma scenario_nonempty: "scenario \<noteq> []"
  by (simp add: scenario_def)

text \<open>
  Claim C7. For every selection of symbols and every behaviour of the data provider, the
  run reaches the end of the loop, and the tab of each selected symbol holds the outcome of
  that symbol alone: the messages of its own fetch, followed by its panel (statistics and
  charts of its own frame) when its fetch returned data, and by the error message
  "No data available for" the symbol otherwise. A failed or empty fetch of one symbol
  therefore never keeps another symbol from being fetched, computed and shown.
\<close>

theorem symbol_isolation:
  assumes "i < length stock_symbols"
  shows "\<exists>st ui. dashboard yf stock_symbols sd ed ct fmt pressed = Inr (st, ui)
           \<and> tab_outcome_shown yf sd ed ct i (stock_symbols ! i) (shown st)"
proof -
  from assms have ne: "stock_symbols \<noteq> []" by auto
  from assms have mem: "(i, stock_symbols ! i) \<in> set (enumerate 0 stock_symbols)"
    by (simp add: in_set_enumerate_eq)
  from dashboard_total [OF ne, of yf sd ed ct fmt pressed]
  obtain st where d: "dashboard yf stock_symbols sd ed ct fmt pressed =
             Inr (st, export_data (all_data st) fmt pressed)"
    and o: "\<forall>(i, s) \<in> set (enumerate 0 stock_symbols). tab_outcome_shown yf sd ed ct i s (shown st)"
    by blast
  from o mem have "tab_outcome_shown yf sd ed ct i (stock_symbols ! i) (shown st)"
    by blast
  with d show ?thesis by blast
qed

theorem symbol_isolation_witness:
  "(0::nat) < length [''AAPL'', ''MSFT''] \<and> (1::nat) < length [''AAPL'', ''MSFT'']
   \<and> (\<exists>st ui. dashboard demo_provider [''AAPL'', ''MSFT''] 0 0 ''Candlestick'' ''CSV'' False = Inr (st, ui)
        \<and> (Tab 0, Error ''Error fetching data for AAPL: connection refused'') \<in> set (shown st)
        \<and> (Tab 0, Error ''No data available for AAPL'') \<in> set (shown st))
   \<and> (\<exists>st ui. dashboard demo_provider [''AAPL'', ''MSFT''] 0 0 ''Candlestick'' ''CSV'' False = Inr (st, ui)
        \<and> (Tab 1, Panel ''MSFT''
              \<lparr>Current_Price = 110, Opening_Price = 100, High = Finite 112, Low = Finite 95,
               Price_Change = 10, Percentage_Change = Finite 10, Average_Volume = Finite 1500\<rparr>
              ''Candlestick'' scenario) \<in> set (shown st))"
  using symbol_isolation [of 0 "[''AAPL'', ''MSFT'']" demo_provider 0 0 "''Candlestick''" "''CSV''" False]
    symbol_isolation [of 1 "[''AAPL'', ''MSFT'']" demo_provider 0 0 "''Candlestick''" "''CSV''" False]
  by (simp add: tab_outcome_shown_def fetch_ok_def fetched_def fetch_demo scenario_statistics
      scenario_nonempty)


lemma combine_append:
  "combine al acc = acc @ concat (map (\<lambda>(symbol, data). map (\<lambda>row. (row, symbol)) data) al)"
  by (induction al arbitrary: acc) auto

lemma write_sheets_append: "write_sheets al writer = writer @ al"
  by (induction al arbitrary: writer) auto

lemma tagged_rows_symbols:
  "snd ` set (map (\<lambda>row. (row, s)) df) = (if df = [] then {} else {s})"
  by (simp add: image_image image_constant_conv)

lemma combined_rows_symbols:
  "snd ` set (concat (map (\<lambda>(symbol, data). map (\<lambda>row. (row, symbol)) data) al)) =
     {s. \<exists>df. (s, df) \<in> set al \<and> df \<noteq> []}"
proof (induction al)
  case Nil
  show ?case by simp
next
  case (Cons p al)
  obtain s df where p: "p = (s, df)" by (cases p)
  have "snd ` set (concat (map (\<lambda>(symbol, data). map (\<lambda>row. (row, symbol)) data) (p # al))) =
      snd ` set (map (\<lambda>row. (row, s)) df)
      \<union> snd ` set (concat (map (\<lambda>(symbol, data). map (\<lambda>row. (row, symbol)) data) al))"
    unfolding p by (simp only: list.map concat.simps set_append image_Un prod.case)
  also have "\<dots> = (if df = [] then {} else {s}) \<union> {s. \<exists>df. (s, df) \<in> set al \<and> df \<noteq> []}"
    unfolding tagged_rows_symbols Cons.IH ..
  also have "\<dots> = {s'. \<exists>df'. (s', df') \<in> set (p # al) \<and> df' \<noteq> []}"
    unfolding p by auto
  finally show ?case .
qed

lemma exported_symbols_csv:
  "exported_symbols (Csv (combine al [])) = {s. \<exists>df. (s, df) \<in> set al \<and> df \<noteq> []}"
  by (simp only: combine_append append_Nil exported_symbols.simps combined_rows_symbols)

lemma exported_symbols_excel:
  "exported_symbols (Excel (write_sheets al [])) = fst ` set al"
  by (simp add: write_sheets_append)

lemma fetch_ok_fetched:
  "fetch_ok yf sd ed s \<longleftrightarrow> (\<exists>df. fetched yf sd ed s = Some df \<and> df \<noteq> [])"
  by (auto simp add: fetch_ok_def fetched_def split: option.splits)

text \<open>
  Claim C10. After the run, \<open>all_data\<close> maps exactly the selected symbols whose fetch
  returned a non-empty frame, each to that frame. The export controls exist exactly when
  there is such a symbol; the table of the CSV export and the sheets of the Excel export
  hold exactly these symbols, so a symbol whose fetch failed or returned nothing is left
  out of the exported file.
\<close>

theorem export_holds_fetched_symbols:
  "\<exists>st ui. dashboard yf stock_symbols sd ed ct fmt pressed = Inr (st, ui)
     \<and> (\<forall>s. map_of (all_data st) s =
            (if s \<in> set stock_symbols \<and> fetch_ok yf sd ed s then fetched yf sd ed s else None))
     \<and> ui = (if {s \<in> set stock_symbols. fetch_ok yf sd ed s} = {} then No_Export
             else if pressed then
               Export_Controls (Some (if fmt = ''CSV'' then Csv (combine (all_data st) [])
                                      else Excel (write_sheets (all_data st) [])))
             else Export_Controls None)
     \<and> exported_symbols (Csv (combine (all_data st) [])) =
           {s \<in> set stock_symbols. fetch_ok yf sd ed s}
     \<and> exported_symbols (Excel (write_sheets (all_data st) [])) =
           {s \<in> set stock_symbols. fetch_ok yf sd ed s}"
proof (cases "stock_symbols = []")
  case True
  then show ?thesis
    by (simp add: dashboard_def combine_append write_sheets_append)
next
  case False
  let ?ok = "{s \<in> set stock_symbols. fetch_ok yf sd ed s}"
  from dashboard_total [OF False, of yf sd ed ct fmt pressed]
  obtain st where d: "dashboard yf stock_symbols sd ed ct fmt pressed =
             Inr (st, export_data (all_data st) fmt pressed)"
    and dist: "distinct (map fst (all_data st))"
    and m: "\<forall>s. map_of (all_data st) s =
            (if s \<in> set stock_symbols \<and> fetch_ok yf sd ed s then fetched yf sd ed s else None)"
    by blast
  have mem: "\<And>s df. (s, df) \<in> set (all_data st) \<longleftrightarrow>
      s \<in> set stock_symbols \<and> fetch_ok yf sd ed s \<and> fetched yf sd ed s = Some df"
  proof -
    fix s df
    have "(s, df) \<in> set (all_data st) \<longleftrightarrow> map_of (all_data st) s = Some df"
      using dist by simp
    also have "\<dots> \<longleftrightarrow> s \<in> set stock_symbols \<and> fetch_ok yf sd ed s \<and> fetched yf sd ed s = Some df"
      by (auto simp add: m)
    finally show "(s, df) \<in> set (all_data st) \<longleftrightarrow>
      s \<in> set stock_symbols \<and> fetch_ok yf sd ed s \<and> fetched yf sd ed s = Some df" .
  qed
  have keys: "fst ` set (all_data st) = ?ok"
  proof (rule set_eqI)
    fix s
    have "s \<in> fst ` set (all_data st) \<longleftrightarrow> (\<exists>df. (s, df) \<in> set (all_data st))"
      by force
    also have "\<dots> \<longleftrightarrow> s \<in> ?ok"
      using mem fetch_ok_fetched [of yf sd ed s] by auto
    finally show "s \<in> fst ` set (all_data st) \<longleftrightarrow> s \<in> ?ok" .
  qed
  have csv: "exported_symbols (Csv (combine (all_data st) [])) = ?ok"
    unfolding exported_symbols_csv
    using mem fetch_ok_fetched [of yf sd ed] by auto
  have excel: "exported_symbols (Excel (write_sheets (all_data st) [])) = ?ok"
    unfolding exported_symbols_excel by (rule keys)
  have empty: "all_data st = [] \<longleftrightarrow> ?ok = {}"
    using keys by (metis image_is_empty set_empty)
  have ui: "export_data (all_data st) fmt pressed =
      (if ?ok = {} then No_Export
       else if pressed then
         Export_Controls (Some (if fmt = ''CSV'' then Csv (combine (all_data st) [])
                                else Excel (write_sheets (all_data st) [])))
       else Export_Controls None)"
    unfolding export_data_def empty by simp
  from d m ui csv excel show ?thesis by blast
qed

theorem export_holds_fetched_symbols_witness:
  "\<exists>st. dashboard demo_provider [''AAPL'', ''MSFT'', ''TSLA''] 0 0 ''Candlestick'' ''CSV'' True =
          Inr (st, Export_Controls (Some (Csv (combine (all_data st) []))))
     \<and> map_of (all_data st) ''MSFT'' = Some scenario
     \<and> map_of (all_data st) ''AAPL'' = None
     \<and> map_of (all_data st) ''TSLA'' = None
     \<and> exported_symbols (Csv (combine (all_data st) [])) = {''MSFT''}"
proof -
  let ?syms = "[''AAPL'', ''MSFT'', ''TSLA'']"
  have ok: "{s \<in> set ?syms. fetch_ok demo_provider 0 0 s} = {''MSFT''}"
    by (auto simp add: fetch_ok_def fetch_demo scenario_nonempty)
  from export_holds_fetched_symbols [of demo_provider ?syms 0 0 "''Candlestick''" "''CSV''" True]
  obtain st ui where all:
    "dashboard demo_provider ?syms 0 0 ''Candlestick'' ''CSV'' True = Inr (st, ui)
     \<and> (\<forall>s. map_of (all_data st) s =
            (if s \<in> set ?syms \<and> fetch_ok demo_provider 0 0 s then fetched demo_provider 0 0 s
             else None))
     \<and> ui = (if {s \<in> set ?syms. fetch_ok demo_provider 0 0 s} = {} then No_Export
             else if True then
               Export_Controls (Some (if ''CSV'' = ''CSV'' then Csv (combine (all_data st) [])
                                      else Excel (write_sheets (all_data st) [])))
             else Export_Controls None)
     \<and> exported_symbols (Csv (combine (all_data st) [])) =
           {s \<in> set ?syms. fetch_ok demo_provider 0 0 s}
     \<and> exported_symbols (Excel (write_sheets (all_data st) [])) =
           {s \<in> set ?syms. fetch_ok demo_provider 0 0 s}"
    by (elim exE) (rule that)
  note d = all [THEN conjunct1]
  note m = all [THEN conjunct2, THEN conjunct1]
  note ui = all [THEN conjunct2, THEN conjunct2, THEN conjunct1]
  note csv = all [THEN conjunct2, THEN conjunct2, THEN conjunct2, THEN conjunct1]
  from ui have ui': "ui = Export_Controls (Some (Csv (combine (all_data st) [])))"
    unfolding ok by simp
  have m1: "map_of (all_data st) ''MSFT'' = Some scenario"
    by (simp add: m fetch_ok_def fetched_def fetch_demo scenario_nonempty)
  have m2: "map_of (all_data st) ''AAPL'' = None"
    by (simp add: m fetch_ok_def fetch_demo)
  have m3: "map_of (all_data st) ''TSLA'' = None"
    by (simp add: m fetch_ok_def fetch_demo)
  from csv have csv': "exported_symbols (Csv (combine (all_data st) [])) = {''MSFT''}"
    unfolding ok .
  from d have d': "dashboard demo_provider ?syms 0 0 ''Candlestick'' ''CSV'' True =
      Inr (st, Export_Controls (Some (Csv (combine (all_data st) []))))"
    unfolding ui' .
  show ?thesis
    by (rule exI [of _ st]) (intro conjI d' m1 m2 m3 csv')
qed

end
